theory Spec2Isabelle
  imports Main "HOL-Library.Sublist"
begin

section \<open>Shared JavaScript helpers\<close>

text \<open>
  Thrown values. \<open>Error m\<close> is \<^verbatim>\<open>new Error(m)\<close>, \<open>TypeError m\<close> a property access
  on \<^verbatim>\<open>undefined\<close>, \<open>SysError c\<close> a rejected file-system or network call carrying the
  code \<open>c\<close> (\<^verbatim>\<open>ENOTDIR\<close>, \<^verbatim>\<open>ECONNREFUSED\<close>, ...).
\<close>

datatype error = Error string | TypeError string | SysError string

text \<open>\<^verbatim>\<open>xs.join(sep)\<close>\<close>

fun join :: "string \<Rightarrow> string list \<Rightarrow> string" where
  "join sep [] = []"
| "join sep [x] = x"
| "join sep (x # y # ys) = x @ sep @ join sep (y # ys)"

text \<open>\<^verbatim>\<open>s.includes(t)\<close>\<close>

definition str_includes :: "string \<Rightarrow> string \<Rightarrow> bool" where
  "str_includes s t = sublist t s"

text \<open>\<^verbatim>\<open>s.replace(pat, rep)\<close> with a string pattern: the first occurrence is replaced.\<close>

fun str_replace :: "string \<Rightarrow> string \<Rightarrow> string \<Rightarrow> string" where
  "str_replace pat rep [] = (if pat = [] then rep else [])"
| "str_replace pat rep (c # cs) =
     (if prefix pat (c # cs) then rep @ drop (length pat) (c # cs)
      else c # str_replace pat rep cs)"

text \<open>Decimal rendering of a number inside a template literal.\<close>

definition digit :: "nat \<Rightarrow> char" where
  "digit d = ''0123456789'' ! d"

fun show_nat :: "nat \<Rightarrow> string" where
  "show_nat n = (if n < 10 then [digit n] else show_nat (n div 10) @ [digit (n mod 10)])"

declare show_nat.simps [simp del]

text \<open>
  \<^verbatim>\<open>process.env\<close>: a map from names to values. \<^verbatim>\<open>!process.env[key]\<close> holds for an
  absent variable and for one set to the empty string.
\<close>

type_synonym env = "string \<rightharpoonup> string"

definition env_falsy :: "env \<Rightarrow> string \<Rightarrow> bool" where
  "env_falsy pe key = (case pe key of None \<Rightarrow> True | Some v \<Rightarrow> v = [])"

text \<open>
  Paths, as the POSIX variant of Node's \<^verbatim>\<open>path\<close> module computes them. \<open>split_on\<close> is
  \<^verbatim>\<open>s.split(c)\<close>. \<open>norm_segs\<close> walks the segments: empty and \<^verbatim>\<open>.\<close> segments go, \<^verbatim>\<open>..\<close>
  removes the segment before it, and is kept at the front only when the path is relative
  (\<open>rel\<close>).
\<close>

fun split_on :: "char \<Rightarrow> string \<Rightarrow> string list" where
  "split_on c [] = [[]]"
| "split_on c (x # xs) =
     (if x = c then [] # split_on c xs
      else (case split_on c xs of
              [] \<Rightarrow> [[x]]
            | seg # segs \<Rightarrow> (x # seg) # segs))"

fun norm_segs :: "bool \<Rightarrow> string list \<Rightarrow> string list \<Rightarrow> string list" where
  "norm_segs rel [] acc = rev acc"
| "norm_segs rel (seg # segs) acc =
     (if seg = [] \<or> seg = ''.'' then norm_segs rel segs acc
      else if seg = ''..'' then
        (case acc of
           [] \<Rightarrow> norm_segs rel segs (if rel then [''..''] else [])
         | a # rest \<Rightarrow>
             if a = ''..'' then norm_segs rel segs (''..'' # acc)
             else norm_segs rel segs rest)
      else norm_segs rel segs (seg # acc))"

definition normalizeString :: "string \<Rightarrow> bool \<Rightarrow> string" where
  "normalizeString path allowAboveRoot =
     join ''/'' (norm_segs allowAboveRoot (split_on CHR ''/'' path) [])"

text \<open>\<^verbatim>\<open>path.normalize\<close>: a trailing slash is kept.\<close>

definition path_normalize :: "string \<Rightarrow> string" where
  "path_normalize path =
     (if path = [] then ''.''
      else
        (let isAbsolute = prefix ''/'' path;
             trailingSeparator = (last path = CHR ''/'');
             body = normalizeString path (\<not> isAbsolute)
         in if body = [] then
              (if isAbsolute then ''/'' else if trailingSeparator then ''./'' else ''.'')
            else (if isAbsolute then ''/'' else [])
                 @ body @ (if trailingSeparator then ''/'' else [])))"

text \<open>\<^verbatim>\<open>path.join(...args)\<close>: the non-empty arguments, joined and normalised.\<close>

definition path_join :: "string list \<Rightarrow> string" where
  "path_join args =
     (let joined = join ''/'' (filter (\<lambda>a. a \<noteq> []) args)
      in if joined = [] then ''.'' else path_normalize joined)"

text \<open>
  \<^verbatim>\<open>path.resolve(...args)\<close>: arguments are prepended from the right until the path is
  absolute, the working directory last; the result has no trailing slash.
\<close>

fun resolve_acc :: "string list \<Rightarrow> string \<Rightarrow> string" where
  "resolve_acc [] acc = acc"
| "resolve_acc (p # ps) acc =
     (if p = [] then resolve_acc ps acc
      else if prefix ''/'' p then p @ ''/'' @ acc
      else resolve_acc ps (p @ ''/'' @ acc))"

definition path_resolve :: "string \<Rightarrow> string list \<Rightarrow> string" where
  "path_resolve cwd args =
     (let resolvedPath = resolve_acc (rev args @ [cwd]) [];
          resolvedAbsolute = prefix ''/'' resolvedPath;
          body = normalizeString resolvedPath (\<not> resolvedAbsolute)
      in if resolvedAbsolute then ''/'' @ body
         else if body = [] then ''.'' else body)"

text \<open>\<^verbatim>\<open>path.basename(p)\<close>: the last segment, trailing slashes ignored.\<close>

definition basename :: "string \<Rightarrow> string" where
  "basename p =
     rev (takeWhile (\<lambda>c. c \<noteq> CHR ''/'') (dropWhile (\<lambda>c. c = CHR ''/'') (rev p)))"

section \<open>Project configuration\<close>

text \<open>
  The object exported by \<^verbatim>\<open>easy-deploy.config.js\<close>. Optional members are options;
  \<open>cfg_oauth\<close> is the truthiness of \<^verbatim>\<open>config.auth?.google?.enabled\<close>, \<open>cfg_autoCommit\<close>
  and \<open>cfg_autoDeploy\<close> that of \<^verbatim>\<open>config.features?.autoCommit\<close> and
  \<^verbatim>\<open>config.features?.autoDeploy\<close>.
\<close>

record server_config =
  srv_host :: string
  srv_port :: nat

record config =
  cfg_name :: string
  cfg_provider :: "string option"
  cfg_source :: "string option"
  cfg_database :: "string option"
  cfg_server :: "server_config option"
  cfg_oauth :: bool
  cfg_autoCommit :: bool
  cfg_autoDeploy :: bool

section \<open>State detector (lib/config-detector.js)\<close>

subsection \<open>The probed environment\<close>

datatype stat_result = IsDirectory | IsFile | StatThrows string

text \<open>
  The \<^verbatim>\<open>artifacts\<close> path: absent, present but \<^verbatim>\<open>fs.readdir\<close> rejects (a regular file,
  no permission), or a listing of entries with what \<^verbatim>\<open>fs.stat\<close> gives for each.
\<close>

datatype dir_listing = NoDir | ReaddirThrows string | Entries "(string \<times> stat_result) list"

record container =
  c_Names :: "string list"
  c_Id :: string
  c_State :: string
  c_Status :: string

text \<open>
  Everything one detection pass reads. \<open>w_cwd\<close> is \<^verbatim>\<open>process.cwd()\<close> and \<open>w_baseDir\<close> the
  directory the detector was constructed with. \<open>w_configModule\<close> is what \<^verbatim>\<open>require(configPath)\<close>
  yields (\<open>None\<close>: it throws); \<open>w_dockerPing\<close> is false when \<^verbatim>\<open>docker.ping()\<close> rejects;
  the two container listings are \<open>None\<close> when \<^verbatim>\<open>listContainers\<close> rejects;
  \<open>w_envFile\<close> holds the text of \<^verbatim>\<open>.env\<close> when that file exists.
\<close>

record world =
  w_cwd :: string
  w_baseDir :: string
  w_configFile :: bool
  w_configModule :: "config option"
  w_dockerPing :: bool
  w_containersAll :: "container list option"
  w_containersUp :: "container list option"
  w_artifacts :: dir_listing
  w_packageJson :: bool
  w_envFile :: "string option"
  w_processEnv :: env
  w_pathExists :: "string \<Rightarrow> bool"

subsection \<open>Probe results and the detected state\<close>

record artifacts_check =
  art_exists :: bool
  art_count :: nat
  art_artifacts :: "string list option"

record env_check =
  env_exists :: bool
  env_valid :: bool
  env_missing :: "string list"

record checks =
  configExists :: bool
  dockerRunning :: bool
  artifactsExist :: artifacts_check
  deploymentRunning :: bool
  envValid :: env_check
  databaseExists :: bool

record suggestion =
  sg_type :: string
  sg_message :: string
  sg_artifacts :: "string list option"
  sg_action :: string

record container_info =
  ci_id :: string
  ci_name :: string
  ci_status :: string
  ci_uptime :: string

record deployment_info =
  containerCount :: nat
  containers :: "container_info list"
  di_url :: string

record detected_error =
  e_type :: string
  e_severity :: string
  e_message :: string
  e_description :: string

record suggested_fix =
  f_error :: string
  f_action :: string
  f_description :: string
  f_autoFixable :: bool
  f_instructions :: "string list"

text \<open>
  The object \<^verbatim>\<open>this.state\<close>. A member the branch does not write is \<open>None\<close>; a member
  written with \<^verbatim>\<open>null\<close> is \<open>Some None\<close>.
\<close>

record state =
  st_type :: string
  st_checks :: checks
  st_message :: string
  st_suggestions :: "suggestion list option"
  st_config :: "config option option"
  st_deployment :: "deployment_info option option"
  st_errors :: "detected_error list option"
  st_fixes :: "suggested_fix list option"

subsection \<open>Probes\<close>

definition checkConfig :: "world \<Rightarrow> bool" where
  "checkConfig w = w_configFile w"

definition checkDocker :: "world \<Rightarrow> bool" where
  "checkDocker w = (if w_dockerPing w then True else False)"

text \<open>The loop over the directory entries, shared by the two places that run it.\<close>

fun collect_dirs :: "(string \<times> stat_result) list \<Rightarrow> string list \<Rightarrow> error + string list" where
  "collect_dirs [] acc = Inr acc"
| "collect_dirs ((item, st) # items) acc =
     (case st of
        StatThrows c \<Rightarrow> Inl (SysError c)
      | IsDirectory \<Rightarrow> collect_dirs items (acc @ [item])
      | IsFile \<Rightarrow> collect_dirs items acc)"

definition checkArtifacts :: "world \<Rightarrow> error + artifacts_check" where
  "checkArtifacts w =
     (case w_artifacts w of
        NoDir \<Rightarrow> Inr \<lparr>art_exists = False, art_count = 0, art_artifacts = None\<rparr>
      | ReaddirThrows c \<Rightarrow> Inl (SysError c)
      | Entries items \<Rightarrow>
          (case collect_dirs items [] of
             Inl e \<Rightarrow> Inl e
           | Inr artifacts \<Rightarrow>
               Inr \<lparr>art_exists = True, art_count = length artifacts,
                    art_artifacts = Some artifacts\<rparr>))"

definition loadConfig :: "world \<Rightarrow> config option" where
  "loadConfig w = (if w_configFile w then w_configModule w else None)"

definition checkDeployment :: "world \<Rightarrow> bool" where
  "checkDeployment w =
     (case w_containersAll w of
        None \<Rightarrow> False
      | Some cs \<Rightarrow>
          (case loadConfig w of
             None \<Rightarrow> False
           | Some cfg \<Rightarrow>
               length (filter (\<lambda>c. list_ex (\<lambda>n. str_includes n (cfg_name cfg) \<or>
                                                 str_includes n ''easy-deploy'') (c_Names c)) cs) > 0))"

text \<open>The list \<^verbatim>\<open>required\<close> built by \<^verbatim>\<open>checkEnv\<close>, pushes in source order.\<close>

definition checkEnv_required :: "config \<Rightarrow> string list" where
  "checkEnv_required cfg =
     [''SESSION_SECRET'']
     @ (if cfg_oauth cfg then [''GOOGLE_CLIENT_ID'', ''GOOGLE_CLIENT_SECRET''] else [])
     @ (if cfg_database cfg = Some ''postgresql'' then [''DATABASE_URL''] else [])"

definition checkEnv :: "world \<Rightarrow> env_check" where
  "checkEnv w =
     (case w_envFile w of
        None \<Rightarrow> \<lparr>env_exists = False, env_valid = False, env_missing = []\<rparr>
      | Some _ \<Rightarrow>
          (case loadConfig w of
             None \<Rightarrow> \<lparr>env_exists = True, env_valid = True, env_missing = []\<rparr>
           | Some cfg \<Rightarrow>
               (let missing = filter (env_falsy (w_processEnv w)) (checkEnv_required cfg)
                in \<lparr>env_exists = True, env_valid = (length missing = 0),
                     env_missing = missing\<rparr>)))"

definition checkDatabase :: "world \<Rightarrow> bool" where
  "checkDatabase w =
     (case loadConfig w of
        None \<Rightarrow> False
      | Some cfg \<Rightarrow>
          if cfg_database cfg = Some ''sqlite'' then
            w_pathExists w
              (if env_falsy (w_processEnv w) ''DATABASE_PATH''
               then path_join [w_baseDir w, ''data'', ''app.db'']
               else the (w_processEnv w ''DATABASE_PATH''))
          else if cfg_database cfg = Some ''postgresql'' then
            \<not> env_falsy (w_processEnv w) ''DATABASE_URL''
          else False)"

subsection \<open>Errors and fixes\<close>

definition detectErrors :: "world \<Rightarrow> checks \<Rightarrow> detected_error list" where
  "detectErrors w chk =
     (if \<not> dockerRunning chk then
        [\<lparr>e_type = ''docker-not-running'', e_severity = ''critical'',
          e_message = ''Docker is not running'',
          e_description = ''Docker Desktop needs to be started before deployment''\<rparr>]
      else [])
     @ (if \<not> env_valid (envValid chk) \<and> length (env_missing (envValid chk)) > 0 then
          [\<lparr>e_type = ''missing-env-vars'', e_severity = ''high'',
            e_message = ''Missing environment variables: ''
                        @ join '', '' (env_missing (envValid chk)),
            e_description = ''Required environment variables are not set in .env file''\<rparr>]
        else [])
     @ (case loadConfig w of
          None \<Rightarrow> []
        | Some cfg \<Rightarrow>
            (case cfg_source cfg of
               None \<Rightarrow> []
             | Some src \<Rightarrow>
                 if src \<noteq> [] \<and>
                    \<not> w_pathExists w (path_resolve (w_cwd w) [w_baseDir w, src]) then
                   [\<lparr>e_type = ''source-not-found'', e_severity = ''high'',
                     e_message = ''Source not found: '' @ src,
                     e_description =
                       ''The configured artifact source directory does not exist''\<rparr>]
                 else []))"

definition fixFor :: "detected_error \<Rightarrow> suggested_fix list" where
  "fixFor err =
     (if e_type err = ''docker-not-running'' then
        [\<lparr>f_error = e_type err, f_action = ''start-docker'',
          f_description = ''Start Docker Desktop'', f_autoFixable = False,
          f_instructions = [''Open Docker Desktop application'',
                            ''Wait for Docker to start'', ''Retry deployment'']\<rparr>]
      else if e_type err = ''missing-env-vars'' then
        [\<lparr>f_error = e_type err, f_action = ''update-env'',
          f_description = ''Update .env file with missing variables'', f_autoFixable = True,
          f_instructions = [''Edit .env file'', ''Add missing variables'',
                            ''Restart application'']\<rparr>]
      else if e_type err = ''source-not-found'' then
        [\<lparr>f_error = e_type err, f_action = ''update-source'',
          f_description = ''Update source path or create artifacts directory'',
          f_autoFixable = True,
          f_instructions = [''Check artifact source path in config'',
                            ''Create artifacts directory if needed'',
                            ''Add your application files'']\<rparr>]
      else [])"

definition suggestFixes :: "detected_error list \<Rightarrow> suggested_fix list" where
  "suggestFixes errs = concat (map fixFor errs)"

subsection \<open>Secondary information\<close>

definition getFirstLaunchSuggestions :: "world \<Rightarrow> error + suggestion list" where
  "getFirstLaunchSuggestions w =
     (let s1 = (if w_packageJson w then
                  [\<lparr>sg_type = ''nodejs-project'', sg_message = ''Node.js project detected'',
                    sg_artifacts = None, sg_action = ''Can set up as Node.js application''\<rparr>]
                else [])
      in case w_artifacts w of
           NoDir \<Rightarrow> Inr s1
         | ReaddirThrows c \<Rightarrow> Inl (SysError c)
         | Entries items \<Rightarrow>
             (case collect_dirs items [] of
                Inl e \<Rightarrow> Inl e
              | Inr dirs \<Rightarrow>
                  Inr (s1 @ (if length dirs > 0 then
                               [\<lparr>sg_type = ''artifacts-found'',
                                 sg_message = ''Found '' @ show_nat (length dirs)
                                              @ '' artifact(s)'',
                                 sg_artifacts = Some dirs,
                                 sg_action = ''Can auto-deploy these artifacts''\<rparr>]
                             else []))))"

definition server_url :: "config \<Rightarrow> string" where
  "server_url cfg =
     ''http://''
     @ (case cfg_server cfg of
          None \<Rightarrow> ''localhost''
        | Some s \<Rightarrow> if srv_host s = [] then ''localhost'' else srv_host s)
     @ '':''
     @ show_nat (case cfg_server cfg of
                   None \<Rightarrow> 3000
                 | Some s \<Rightarrow> if srv_port s = 0 then 3000 else srv_port s)"

text \<open>
  \<^verbatim>\<open>getDeploymentInfo\<close>: any throw inside (no configuration, a rejected listing, a
  container without a name) is caught and gives \<^verbatim>\<open>null\<close>.
\<close>

definition getDeploymentInfo :: "world \<Rightarrow> deployment_info option" where
  "getDeploymentInfo w =
     (case loadConfig w of
        None \<Rightarrow> None
      | Some cfg \<Rightarrow>
          (case w_containersUp w of
             None \<Rightarrow> None
           | Some cs \<Rightarrow>
               (let pcs = filter (\<lambda>c. list_ex (\<lambda>n. str_includes n (cfg_name cfg)) (c_Names c)) cs
                in Some \<lparr>containerCount = length pcs,
                         containers =
                           map (\<lambda>c. \<lparr>ci_id = take 12 (c_Id c),
                                     ci_name = str_replace ''/'' [] (hd (c_Names c)),
                                     ci_status = c_State c, ci_uptime = c_Status c\<rparr>) pcs,
                         di_url = server_url cfg\<rparr>)))"

subsection \<open>detect\<close>

text \<open>
  Step 2 of \<^verbatim>\<open>detect\<close>: the three-way conditional that writes \<^verbatim>\<open>this.state\<close>. The
  conditions cover every pair of booleans, so the state is always assigned.
\<close>

definition classify :: "world \<Rightarrow> checks \<Rightarrow> error + state" where
  "classify w chk =
     (if \<not> configExists chk then
        (case getFirstLaunchSuggestions w of
           Inl e \<Rightarrow> Inl e
         | Inr sg \<Rightarrow>
             Inr \<lparr>st_type = ''first-launch'', st_checks = chk,
                  st_message = ''No configuration found. Starting setup...'',
                  st_suggestions = Some sg, st_config = None, st_deployment = None,
                  st_errors = None, st_fixes = None\<rparr>)
      else if configExists chk \<and> \<not> deploymentRunning chk then
        Inr \<lparr>st_type = ''configured-not-deployed'', st_checks = chk,
             st_message = ''Configuration found but not deployed'',
             st_suggestions = None, st_config = Some (loadConfig w), st_deployment = None,
             st_errors = None, st_fixes = None\<rparr>
      else
        Inr \<lparr>st_type = ''running'', st_checks = chk,
             st_message = ''Deployment is running'',
             st_suggestions = None, st_config = Some (loadConfig w),
             st_deployment = Some (getDeploymentInfo w),
             st_errors = None, st_fixes = None\<rparr>)"

text \<open>The six probes, in source order; only \<^verbatim>\<open>checkArtifacts\<close> can reject.\<close>

definition runChecks :: "world \<Rightarrow> error + checks" where
  "runChecks w =
     (case checkArtifacts w of
        Inl e \<Rightarrow> Inl e
      | Inr a \<Rightarrow>
          Inr \<lparr>configExists = checkConfig w, dockerRunning = checkDocker w,
               artifactsExist = a, deploymentRunning = checkDeployment w,
               envValid = checkEnv w, databaseExists = checkDatabase w\<rparr>)"

definition detect :: "world \<Rightarrow> error + state" where
  "detect w =
     (case runChecks w of
        Inl e \<Rightarrow> Inl e
      | Inr chk \<Rightarrow>
          (case classify w chk of
             Inl e \<Rightarrow> Inl e
           | Inr s \<Rightarrow>
               (let errors = detectErrors w chk
                in if length errors > 0 then
                     Inr (s\<lparr>st_type := ''error'', st_errors := Some errors,
                            st_fixes := Some (suggestFixes errors)\<rparr>)
                   else Inr s)))"

section \<open>Artifact providers (lib/providers)\<close>

text \<open>
  The three provider classes, and \<open>PlainObject\<close>: \<^verbatim>\<open>getProvider\<close> looks the name up in an
  object literal, so \<^verbatim>\<open>'constructor'\<close> finds \<^verbatim>\<open>Object\<close>, and \<^verbatim>\<open>new Object(config)\<close> is the
  configuration object itself, which has none of the provider methods.
\<close>

datatype provider_kind = ClaudeProvider | LocalProvider | URLProvider | PlainObject

text \<open>
  A provider object. \<open>p_path\<close> is the member the class keeps its location in:
  \<^verbatim>\<open>artifactPath\<close> (Claude) and \<^verbatim>\<open>downloadedPath\<close> (URL) start as \<^verbatim>\<open>null\<close> and are
  written by \<^verbatim>\<open>fetch\<close> only; \<^verbatim>\<open>sourcePath\<close> (Local) is resolved by the constructor.
\<close>

record provider =
  p_kind :: provider_kind
  p_config :: config
  p_path :: "string option"

record artifact =
  a_path :: string
  a_type :: string

text \<open>The network's answer to one HTTP request: a status, or a failure code.\<close>

datatype net_result = Answer nat | NetFail string

record container_status =
  cs_id :: string
  cs_name :: string
  cs_image :: string
  cs_status :: string
  cs_uptime :: string

text \<open>
  What one deployment run meets outside the process: the daemon, the environment, the
  file system, and how each collaborator call ends (\<open>None\<close>: it resolves; \<open>Some e\<close>: it
  rejects with \<open>e\<close>). \<open>d_isDirectory\<close> is \<^verbatim>\<open>stats.isDirectory()\<close>; \<open>d_copy src dest\<close> is how \<^verbatim>\<open>fs.copy\<close> ends for two different paths
  of which the second is not inside the first, \<open>d_download\<close> the transfer of the URL and
  Claude providers, \<open>d_detectType\<close> a provider's \<^verbatim>\<open>detectType\<close>, \<open>d_health\<close> the first
  request of the verification and \<open>d_retry\<close> the second.
\<close>

record dworld =
  d_cwd :: string
  d_now :: nat
  d_dockerPing :: bool
  d_processEnv :: env
  d_pathExists :: "string \<Rightarrow> bool"
  d_dirEmpty :: "string \<Rightarrow> bool"
  d_isDirectory :: "string \<Rightarrow> bool"
  d_ensureDir :: "string \<Rightarrow> error option"
  d_copy :: "string \<Rightarrow> string \<Rightarrow> error option"
  d_download :: "provider_kind \<Rightarrow> error option"
  d_detectType :: "provider_kind \<Rightarrow> error + string"
  d_prepare :: "error option"
  d_initSQLite :: "error option"
  d_initPostgreSQL :: "error option"
  d_generateDockerfile :: "string \<Rightarrow> error option"
  d_generateComposeFile :: "string \<Rightarrow> error option"
  d_buildImage :: "error option"
  d_getContainerStatus :: "error + container_status list"
  d_getCurrentCommit :: "string option"
  d_startContainers :: "error option"
  d_health :: net_result
  d_retry :: net_result
  d_version :: string
  d_gitCommit :: "string \<Rightarrow> bool \<Rightarrow> error option"
  d_stopContainers :: "error option"

text \<open>The constructors.\<close>

definition newProvider :: "provider_kind \<Rightarrow> config \<Rightarrow> dworld \<Rightarrow> error + provider" where
  "newProvider k cfg w =
     (case k of
        LocalProvider \<Rightarrow>
          (case cfg_source cfg of
             None \<Rightarrow> Inl (TypeError ''path.resolve: argument must be of type string'')
           | Some src \<Rightarrow>
               Inr \<lparr>p_kind = LocalProvider, p_config = cfg,
                    p_path = Some (path_resolve (d_cwd w) [src])\<rparr>)
      | _ \<Rightarrow> Inr \<lparr>p_kind = k, p_config = cfg, p_path = None\<rparr>)"

text \<open>\<^verbatim>\<open>source.match(/^https?:\/\//)\<close>\<close>

definition is_http_url :: "string \<Rightarrow> bool" where
  "is_http_url s = (prefix ''http://'' s \<or> prefix ''https://'' s)"

definition detectProvider :: "string option \<Rightarrow> config \<Rightarrow> dworld \<Rightarrow> error + provider" where
  "detectProvider source cfg w =
     (case source of
        None \<Rightarrow> Inl (TypeError ''Cannot read properties of undefined (reading match)'')
      | Some src \<Rightarrow>
          if is_http_url src then
            (if str_includes src ''claude.ai'' \<or> str_includes src ''anthropic.com''
             then newProvider ClaudeProvider (cfg\<lparr>cfg_source := Some src\<rparr>) w
             else newProvider URLProvider (cfg\<lparr>cfg_source := Some src\<rparr>) w)
          else if d_pathExists w src then
            newProvider LocalProvider (cfg\<lparr>cfg_source := Some src\<rparr>) w
          else Inl (Error (''Unable to detect provider for source: '' @ src)))"

text \<open>
  The other names an object literal inherits from \<^verbatim>\<open>Object.prototype\<close>: each is found by
  \<^verbatim>\<open>providers[providerName]\<close>, and none can be called with \<^verbatim>\<open>new\<close>.
\<close>

definition inherited_members :: "string list" where
  "inherited_members =
     [''__defineGetter__'', ''__defineSetter__'', ''hasOwnProperty'', ''__lookupGetter__'',
      ''__lookupSetter__'', ''isPrototypeOf'', ''propertyIsEnumerable'', ''toString'',
      ''valueOf'', ''__proto__'', ''toLocaleString'']"

definition getProvider :: "string \<Rightarrow> config \<Rightarrow> dworld \<Rightarrow> error + provider" where
  "getProvider providerName cfg w =
     (if providerName = ''claude'' then newProvider ClaudeProvider cfg w
      else if providerName = ''local'' then newProvider LocalProvider cfg w
      else if providerName = ''url'' then newProvider URLProvider cfg w
      else if providerName = ''constructor'' then newProvider PlainObject cfg w
      else if providerName \<in> set inherited_members
      then Inl (TypeError ''ProviderClass is not a constructor'')
      else Inl (Error (''Unknown provider: '' @ providerName)))"

definition createProvider :: "config \<Rightarrow> dworld \<Rightarrow> error + provider" where
  "createProvider cfg w =
     (let providerType = (case cfg_provider cfg of
                            None \<Rightarrow> ''auto''
                          | Some t \<Rightarrow> if t = [] then ''auto'' else t)
      in if providerType = ''auto'' then detectProvider (cfg_source cfg) cfg w
         else getProvider providerType cfg w)"

text \<open>\<^verbatim>\<open>validate()\<close> of the three classes.\<close>

definition validate :: "provider \<Rightarrow> dworld \<Rightarrow> error + bool" where
  "validate p w =
     (case p_kind p of
        URLProvider \<Rightarrow>
          (case p_path p of
             None \<Rightarrow> Inl (Error ''Artifact not downloaded yet. Call fetch() first.'')
           | Some dp \<Rightarrow>
               if dp = [] then Inl (Error ''Artifact not downloaded yet. Call fetch() first.'')
               else if \<not> d_pathExists w dp
               then Inl (Error (''Downloaded path does not exist: '' @ dp))
               else Inr True)
      | ClaudeProvider \<Rightarrow>
          (case p_path p of
             None \<Rightarrow> Inl (Error ''Artifact not fetched yet. Call fetch() first.'')
           | Some ap \<Rightarrow>
               if ap = [] then Inl (Error ''Artifact not fetched yet. Call fetch() first.'')
               else if \<not> d_pathExists w ap
               then Inl (Error (''Artifact path does not exist: '' @ ap))
               else if d_dirEmpty w ap then Inl (Error ''Artifact directory is empty'')
               else Inr True)
      | LocalProvider \<Rightarrow>
          (case p_path p of
             None \<Rightarrow> Inl (TypeError ''sourcePath'')
           | Some sp \<Rightarrow>
               if \<not> d_pathExists w sp
               then Inl (Error (''Source path does not exist: '' @ sp))
               else Inr True)
      | PlainObject \<Rightarrow> Inl (TypeError ''provider.validate is not a function''))"

text \<open>
  The directory a provider's \<^verbatim>\<open>fetch\<close> writes to:
  \<^verbatim>\<open>path.join(process.cwd(), 'artifacts', this.config.name || fallback)\<close>.
\<close>

definition destDir :: "provider \<Rightarrow> dworld \<Rightarrow> string" where
  "destDir p w =
     path_join [d_cwd w, ''artifacts'',
       (if cfg_name (p_config p) \<noteq> [] then cfg_name (p_config p)
        else (case p_kind p of
                URLProvider \<Rightarrow> ''remote-artifact''
              | ClaudeProvider \<Rightarrow> ''claude-artifact''
              | LocalProvider \<Rightarrow>
                  (case p_path p of None \<Rightarrow> [] | Some sp \<Rightarrow> basename sp)
              | PlainObject \<Rightarrow> []))]"

text \<open>
  \<^verbatim>\<open>fs.copy(src, dest)\<close> on two resolved paths. The library rejects before copying when
  both name the same file, and when the source is a directory that contains the
  destination; how the copy ends otherwise is the world's.
\<close>

definition path_segments :: "string \<Rightarrow> string list" where
  "path_segments p = filter (\<lambda>seg. seg \<noteq> []) (split_on CHR ''/'' p)"

definition fs_copy :: "dworld \<Rightarrow> string \<Rightarrow> string \<Rightarrow> error option" where
  "fs_copy w src dest =
     (if src = dest then Some (Error ''Source and destination must not be the same.'')
      else if d_isDirectory w src \<and> prefix (path_segments src) (path_segments dest) then
        Some (Error (''Cannot copy '' @ [CHR 0x27] @ src @ [CHR 0x27]
                     @ '' to a subdirectory of itself, '' @ [CHR 0x27] @ dest @ [CHR 0x27]
                     @ ''.''))
      else d_copy w src dest)"

text \<open>
  \<^verbatim>\<open>copyFromLocal\<close> of the Claude provider: a directory is copied onto the destination, a
  file into it.
\<close>

definition copyFromLocal :: "string \<Rightarrow> string \<Rightarrow> dworld \<Rightarrow> error option" where
  "copyFromLocal src dest w =
     (let sourcePath = path_resolve (d_cwd w) [src]
      in if \<not> d_pathExists w sourcePath
         then Some (Error (''Source path not found: '' @ sourcePath))
         else if d_isDirectory w sourcePath then fs_copy w sourcePath dest
         else fs_copy w sourcePath (path_join [dest, basename sourcePath]))"

text \<open>
  \<^verbatim>\<open>fetch()\<close> of the three classes, each in the order of its statements. The result
  is the artifact and the provider afterwards: the URL and Claude providers record the
  destination directory, the Local provider changes nothing.
\<close>

definition fetch :: "provider \<Rightarrow> dworld \<Rightarrow> error + (artifact \<times> provider)" where
  "fetch p w =
     (let dest = destDir p w
      in case p_kind p of
           LocalProvider \<Rightarrow>
             (case p_path p of
                None \<Rightarrow> Inl (TypeError ''sourcePath'')
              | Some sp \<Rightarrow>
                  if \<not> d_pathExists w sp
                  then Inl (Error (''Source path not found: '' @ sp))
                  else
                    (case d_ensureDir w dest of
                       Some e \<Rightarrow> Inl e
                     | None \<Rightarrow>
                         (case fs_copy w sp dest of
                            Some e \<Rightarrow> Inl e
                          | None \<Rightarrow>
                              (case d_detectType w LocalProvider of
                                 Inl e \<Rightarrow> Inl e
                               | Inr ty \<Rightarrow> Inr (\<lparr>a_path = dest, a_type = ty\<rparr>, p)))))
         | URLProvider \<Rightarrow>
             (case d_ensureDir w dest of
                Some e \<Rightarrow> Inl e
              | None \<Rightarrow>
                  (case d_detectType w URLProvider of
                     Inl e \<Rightarrow> Inl e
                   | Inr ty \<Rightarrow>
                       (case d_download w URLProvider of
                          Some e \<Rightarrow> Inl e
                        | None \<Rightarrow>
                            Inr (\<lparr>a_path = dest, a_type = ty\<rparr>, p\<lparr>p_path := Some dest\<rparr>))))
         | ClaudeProvider \<Rightarrow>
             (case d_ensureDir w dest of
                Some e \<Rightarrow> Inl e
              | None \<Rightarrow>
                  (case cfg_source (p_config p) of
                     None \<Rightarrow>
                       Inl (TypeError ''Cannot read properties of undefined (reading match)'')
                   | Some src \<Rightarrow>
                       (case (if is_http_url src then d_download w ClaudeProvider
                              else copyFromLocal src dest w) of
                          Some e \<Rightarrow> Inl e
                        | None \<Rightarrow>
                            (case d_detectType w ClaudeProvider of
                               Inl e \<Rightarrow> Inl e
                             | Inr ty \<Rightarrow>
                                 Inr (\<lparr>a_path = dest, a_type = ty\<rparr>,
                                      p\<lparr>p_path := Some dest\<rparr>)))))
         | PlainObject \<Rightarrow> Inl (TypeError ''provider.fetch is not a function''))"

text \<open>Only the Claude provider has a \<^verbatim>\<open>prepare\<close> method.\<close>

definition prepare :: "provider \<Rightarrow> dworld \<Rightarrow> error option" where
  "prepare p w = (case p_kind p of ClaudeProvider \<Rightarrow> d_prepare w | _ \<Rightarrow> None)"

section \<open>Deployment orchestrator\<close>

record rollback_state =
  rb_timestamp :: nat
  rb_containers :: "container_status list"
  rb_commitHash :: "string option"

record manager =
  m_config :: config
  m_rollbackState :: "rollback_state option"

text \<open>The constructor: \<^verbatim>\<open>this.rollbackState = null\<close>.\<close>

definition DeploymentManager :: "config \<Rightarrow> manager" where
  "DeploymentManager cfg = \<lparr>m_config = cfg, m_rollbackState = None\<rparr>"

record deployment_result =
  r_success :: bool
  r_artifact :: artifact
  r_url :: string

subsection \<open>Step 1: validateEnvironment\<close>

definition docker_checkDocker :: "dworld \<Rightarrow> error + bool" where
  "docker_checkDocker w =
     (if d_dockerPing w then Inr True
      else Inl (Error ''Docker daemon is not running. Please start Docker and try again.''))"

text \<open>The list \<^verbatim>\<open>required\<close> built by \<^verbatim>\<open>validateEnvironment\<close>.\<close>

definition validateEnvironment_required :: "config \<Rightarrow> string list" where
  "validateEnvironment_required cfg =
     [''SESSION_SECRET'']
     @ (if cfg_oauth cfg then [''GOOGLE_CLIENT_ID'', ''GOOGLE_CLIENT_SECRET''] else [])"

definition missing_message :: "string list \<Rightarrow> string" where
  "missing_message missing =
     ''Missing required environment variables: '' @ join '', '' missing
     @ [CHR 0x0A] @ ''Please update your .env file.''"

definition validateEnvironment :: "config \<Rightarrow> dworld \<Rightarrow> error + unit" where
  "validateEnvironment cfg w =
     (case docker_checkDocker w of
        Inl e \<Rightarrow> Inl e
      | Inr _ \<Rightarrow>
          (let missing = filter (env_falsy (d_processEnv w)) (validateEnvironment_required cfg)
           in if length missing > 0 then Inl (Error (missing_message missing))
              else if cfg_provider cfg = Some ''local'' then
                (case cfg_source cfg of
                   None \<Rightarrow> Inl (TypeError ''path.resolve: argument must be of type string'')
                 | Some src \<Rightarrow>
                     (let sourcePath = path_resolve (d_cwd w) [src]
                      in if \<not> d_pathExists w sourcePath
                         then Inl (Error (''Artifact source not found: '' @ sourcePath))
                         else Inr ()))
              else Inr ()))"

subsection \<open>Step 2: fetchArtifact\<close>

definition fetchArtifact :: "config \<Rightarrow> dworld \<Rightarrow> error + artifact" where
  "fetchArtifact cfg w =
     (case createProvider cfg w of
        Inl e \<Rightarrow> Inl e
      | Inr provider \<Rightarrow>
          (case validate provider w of
             Inl e \<Rightarrow> Inl e
           | Inr _ \<Rightarrow>
               (case fetch provider w of
                  Inl e \<Rightarrow> Inl e
                | Inr (artifact, provider') \<Rightarrow>
                    (case prepare provider' w of
                       Some e \<Rightarrow> Inl e
                     | None \<Rightarrow> Inr artifact))))"

subsection \<open>Step 3: the database manager's initialize\<close>

definition database_initialize :: "config \<Rightarrow> dworld \<Rightarrow> error option" where
  "database_initialize cfg w =
     (let ty = (case cfg_database cfg of
                  None \<Rightarrow> ''sqlite''
                | Some d \<Rightarrow> if d = [] then ''sqlite'' else d)
      in if ty = ''sqlite'' then d_initSQLite w
         else if ty = ''postgresql'' then d_initPostgreSQL w
         else Some (Error (''Unsupported database type: '' @ ty)))"

subsection \<open>Step 8: verifyDeployment\<close>

text \<open>
  The HTTP client. \<^verbatim>\<open>axios.get\<close> resolves with the response when \<^verbatim>\<open>validateStatus\<close>
  accepts its status and rejects otherwise, the error then carrying the response; a
  transport failure rejects with the failure's code and no response. Without the option,
  \<^verbatim>\<open>validateStatus\<close> is the client's default, which accepts the 2xx statuses.
\<close>

record axios_error =
  ae_response :: "nat option"
  ae_code :: "string option"

definition axios_get :: "(nat \<Rightarrow> bool) \<Rightarrow> net_result \<Rightarrow> axios_error + nat" where
  "axios_get validateStatus r =
     (case r of
        Answer status \<Rightarrow>
          if validateStatus status then Inr status
          else Inl \<lparr>ae_response = Some status, ae_code = None\<rparr>
      | NetFail c \<Rightarrow> Inl \<lparr>ae_response = None, ae_code = Some c\<rparr>)"

definition default_validateStatus :: "nat \<Rightarrow> bool" where
  "default_validateStatus status = (200 \<le> status \<and> status < 300)"

text \<open>What the \<^verbatim>\<open>catch\<close> of \<^verbatim>\<open>verifyDeployment\<close> can receive.\<close>

datatype thrown = ThrownError error | ThrownAxios axios_error

definition thrown_response_status :: "thrown \<Rightarrow> nat option" where
  "thrown_response_status t = (case t of ThrownError _ \<Rightarrow> None | ThrownAxios ae \<Rightarrow> ae_response ae)"

definition thrown_code :: "thrown \<Rightarrow> string option" where
  "thrown_code t = (case t of ThrownError _ \<Rightarrow> None | ThrownAxios ae \<Rightarrow> ae_code ae)"

definition rethrow :: "thrown \<Rightarrow> error" where
  "rethrow t =
     (case t of
        ThrownError e \<Rightarrow> e
      | ThrownAxios ae \<Rightarrow>
          SysError (case ae_code ae of None \<Rightarrow> ''ERR_BAD_RESPONSE'' | Some c \<Rightarrow> c))"

definition health_url :: "server_config \<Rightarrow> string" where
  "health_url srv = ''http://'' @ srv_host srv @ '':'' @ show_nat (srv_port srv) @ ''/health''"

text \<open>
  The result, and the URLs requested in order. A missing \<^verbatim>\<open>config.server\<close> throws
  before the \<^verbatim>\<open>try\<close>.
\<close>

definition verifyDeployment :: "config \<Rightarrow> dworld \<Rightarrow> (error + bool) \<times> string list" where
  "verifyDeployment cfg w =
     (case cfg_server cfg of
        None \<Rightarrow> (Inl (TypeError ''Cannot read properties of undefined (reading host)''), [])
      | Some srv \<Rightarrow>
          (let url = health_url srv;
               attempt =
                 (case axios_get (\<lambda>_. True) (d_health w) of
                    Inl ae \<Rightarrow> Inl (ThrownAxios ae)
                  | Inr status \<Rightarrow>
                      if status = 200 then Inr True
                      else if status < 500 then Inr True
                      else Inl (ThrownError
                                  (Error (''Server returned status '' @ show_nat status))))
           in case attempt of
                Inr b \<Rightarrow> (Inr b, [url])
              | Inl t \<Rightarrow>
                  if thrown_response_status t = Some 404 then (Inr True, [url])
                  else if thrown_code t = Some ''ECONNREFUSED'' then
                    (case axios_get default_validateStatus (d_retry w) of
                       Inr _ \<Rightarrow> (Inr True, [url, str_replace ''/health'' [] url])
                     | Inl _ \<Rightarrow>
                         (Inl (Error ''Containers started but application is not responding''),
                          [url, str_replace ''/health'' [] url]))
                  else (Inl (rethrow t), [url])))"

subsection \<open>Step 6 and the rollback\<close>

definition saveRollbackState :: "dworld \<Rightarrow> rollback_state option" where
  "saveRollbackState w =
     (case d_getContainerStatus w of
        Inl _ \<Rightarrow> None
      | Inr status \<Rightarrow>
          Some \<lparr>rb_timestamp = d_now w, rb_containers = status,
                rb_commitHash = d_getCurrentCommit w\<rparr>)"

text \<open>\<^verbatim>\<open>rollback()\<close> stops the containers and never throws; it reports how that went.\<close>

datatype rollback_report = RollbackCompleted | RollbackFailed error

definition rollback :: "dworld \<Rightarrow> rollback_report" where
  "rollback w =
     (case d_stopContainers w of
        None \<Rightarrow> RollbackCompleted
      | Some e \<Rightarrow> RollbackFailed e)"

subsection \<open>run\<close>

text \<open>Steps 1 to 5 of the \<^verbatim>\<open>try\<close> block: everything before the rollback state is saved.\<close>

definition steps1to5 :: "config \<Rightarrow> dworld \<Rightarrow> error + artifact" where
  "steps1to5 cfg w =
     (case validateEnvironment cfg w of
        Inl e \<Rightarrow> Inl e
      | Inr _ \<Rightarrow>
          (case fetchArtifact cfg w of
             Inl e \<Rightarrow> Inl e
           | Inr artifact \<Rightarrow>
               (case database_initialize cfg w of
                  Some e \<Rightarrow> Inl e
                | None \<Rightarrow>
                    (case d_generateDockerfile w (a_type artifact) of
                       Some e \<Rightarrow> Inl e
                     | None \<Rightarrow>
                         (case d_generateComposeFile w (a_type artifact) of
                            Some e \<Rightarrow> Inl e
                          | None \<Rightarrow>
                              (case d_buildImage w of
                                 Some e \<Rightarrow> Inl e
                               | None \<Rightarrow> Inr artifact))))))"

text \<open>Step 9, skipped unless \<^verbatim>\<open>features.autoCommit\<close> is set.\<close>

definition commit_step :: "config \<Rightarrow> dworld \<Rightarrow> error option" where
  "commit_step cfg w =
     (if cfg_autoCommit cfg then
        d_gitCommit w (''deploy: '' @ cfg_name cfg @ '' v'' @ d_version w) (cfg_autoDeploy cfg)
      else None)"

text \<open>Steps 7 to 9 and the result object: the rest of the \<^verbatim>\<open>try\<close> block.\<close>

definition steps7to9 :: "config \<Rightarrow> dworld \<Rightarrow> artifact \<Rightarrow> error + deployment_result" where
  "steps7to9 cfg w artifact =
     (case d_startContainers w of
        Some e \<Rightarrow> Inl e
      | None \<Rightarrow>
          (case fst (verifyDeployment cfg w) of
             Inl e \<Rightarrow> Inl e
           | Inr _ \<Rightarrow>
               (case commit_step cfg w of
                  Some e \<Rightarrow> Inl e
                | None \<Rightarrow>
                    (case cfg_server cfg of
                       None \<Rightarrow>
                         Inl (TypeError ''Cannot read properties of undefined (reading host)'')
                     | Some srv \<Rightarrow>
                         Inr \<lparr>r_success = True, r_artifact = artifact,
                              r_url = ''http://'' @ srv_host srv @ '':''
                                      @ show_nat (srv_port srv)\<rparr>))))"

text \<open>
  What a call of \<^verbatim>\<open>run\<close> leaves behind: the value returned or the error thrown, the
  manager afterwards, and one report for each call of \<^verbatim>\<open>rollback()\<close>.
\<close>

record run_outcome =
  ro_result :: "error + deployment_result"
  ro_manager :: manager
  ro_rollbacks :: "rollback_report list"

definition run_try :: "manager \<Rightarrow> dworld \<Rightarrow> (error + deployment_result) \<times> manager" where
  "run_try m w =
     (case steps1to5 (m_config m) w of
        Inl e \<Rightarrow> (Inl e, m)
      | Inr artifact \<Rightarrow>
          (let m' = m\<lparr>m_rollbackState := saveRollbackState w\<rparr>
           in (steps7to9 (m_config m') w artifact, m')))"

definition run :: "manager \<Rightarrow> dworld \<Rightarrow> run_outcome" where
  "run m w =
     (case run_try m w of
        (Inr r, m') \<Rightarrow> \<lparr>ro_result = Inr r, ro_manager = m', ro_rollbacks = []\<rparr>
      | (Inl e, m') \<Rightarrow>
          \<lparr>ro_result = Inl e, ro_manager = m',
           ro_rollbacks = (case m_rollbackState m' of
                             None \<Rightarrow> []
                           | Some _ \<Rightarrow> [rollback w])\<rparr>)"

section \<open>Reading the classification back, and sample environments\<close>

text \<open>
  The conditional of \<^verbatim>\<open>detect\<close> that chooses the base type, applied to the probe results
  a returned state keeps in its \<^verbatim>\<open>checks\<close> member.
\<close>

definition underlying :: "state \<Rightarrow> string" where
  "underlying s =
     (if \<not> configExists (st_checks s) then ''first-launch''
      else if \<not> deploymentRunning (st_checks s) then ''configured-not-deployed''
      else ''running'')"

definition cfg_demo :: config where
  "cfg_demo = \<lparr>cfg_name = ''demo'', cfg_provider = Some ''local'', cfg_source = Some ''./site'',
     cfg_database = Some ''postgresql'', cfg_server = Some \<lparr>srv_host = ''localhost'', srv_port = 3000\<rparr>,
     cfg_oauth = True, cfg_autoCommit = True, cfg_autoDeploy = False\<rparr>"


definition world_artifacts_file :: world where
  "world_artifacts_file =
     \<lparr>w_cwd = ''/srv/app'', w_baseDir = ''/srv/app'', w_configFile = True, w_configModule = Some cfg_demo,
      w_dockerPing = True, w_containersAll = Some [], w_containersUp = Some [],
      w_artifacts = ReaddirThrows ''ENOTDIR'', w_packageJson = True, w_envFile = Some [],
      w_processEnv = Map.empty, w_pathExists = (\<lambda>p. p = ''/srv/app/site'')\<rparr>"

definition world_configured :: world where
  "world_configured =
     \<lparr>w_cwd = ''/srv/app'', w_baseDir = ''/srv/app'', w_configFile = True, w_configModule = Some cfg_demo,
      w_dockerPing = True, w_containersAll = Some [], w_containersUp = Some [],
      w_artifacts = NoDir, w_packageJson = True, w_envFile = None,
      w_processEnv = Map.empty, w_pathExists = (\<lambda>p. p = ''/srv/app/site'')\<rparr>"

definition world_missing_env :: world where
  "world_missing_env =
     \<lparr>w_cwd = ''/srv/app'', w_baseDir = ''/srv/app'', w_configFile = True, w_configModule = Some cfg_demo,
      w_dockerPing = True, w_containersAll = Some [], w_containersUp = Some [],
      w_artifacts = NoDir, w_packageJson = True, w_envFile = Some ''SESSION_SECRET=x'',
      w_processEnv = [''SESSION_SECRET'' \<mapsto> ''x'', ''DATABASE_URL'' \<mapsto> ''postgresql://db''],
      w_pathExists = (\<lambda>p. p = ''/srv/app/site'')\<rparr>"

definition env_demo :: env where
  "env_demo = [''SESSION_SECRET'' \<mapsto> ''s3cret'', ''GOOGLE_CLIENT_ID'' \<mapsto> ''id'',
               ''GOOGLE_CLIENT_SECRET'' \<mapsto> ''gs'']"

definition dworld_ok :: dworld where
  "dworld_ok =
     \<lparr>d_cwd = ''/srv/app'', d_now = 1700000000, d_dockerPing = True,
      d_processEnv = env_demo, d_pathExists = (\<lambda>p. p = ''/srv/app/site''),
      d_dirEmpty = (\<lambda>_. False), d_isDirectory = (\<lambda>p. p = ''/srv/app/site''),
      d_ensureDir = (\<lambda>_. None), d_copy = (\<lambda>_ _. None), d_download = (\<lambda>_. None),
      d_detectType = (\<lambda>_. Inr ''react''), d_prepare = None,
      d_initSQLite = None, d_initPostgreSQL = None,
      d_generateDockerfile = (\<lambda>_. None), d_generateComposeFile = (\<lambda>_. None),
      d_buildImage = None, d_getContainerStatus = Inr [], d_getCurrentCommit = Some ''abc1234'',
      d_startContainers = None, d_health = Answer 200, d_retry = Answer 200,
      d_version = ''1.0.0'', d_gitCommit = (\<lambda>_ _. None), d_stopContainers = None\<rparr>"

definition dworld_commit_fails :: dworld where
  "dworld_commit_fails =
     dworld_ok\<lparr>d_gitCommit := (\<lambda>_ _. Some (Error ''Commit failed: not a git repository''))\<rparr>"

definition demo_artifact :: artifact where
  "demo_artifact = \<lparr>a_path = ''/srv/app/artifacts/demo'', a_type = ''react''\<rparr>"

definition dworld_refused_404 :: dworld where
  "dworld_refused_404 = dworld_ok\<lparr>d_health := NetFail ''ECONNREFUSED'', d_retry := Answer 404\<rparr>"




definition cfg_url :: config where
  "cfg_url = cfg_demo\<lparr>cfg_provider := Some ''url'',
                       cfg_source := Some ''https://example.com/site.zip''\<rparr>"

definition cfg_auto_url :: config where
  "cfg_auto_url = cfg_demo\<lparr>cfg_provider := None,
                            cfg_source := Some ''https://github.com/acme/site''\<rparr>"

section \<open>The state detector: properties\<close>

text \<open>The paths of the sample environments, computed once.\<close>

lemma demo_paths:
  "path_resolve ''/srv/app'' [''/srv/app'', ''./site''] = ''/srv/app/site''"
  "path_resolve ''/srv/app'' [''./site''] = ''/srv/app/site''"
  "path_join [''/srv/app'', ''artifacts'', ''demo''] = ''/srv/app/artifacts/demo''"
  "\<not> prefix (path_segments ''/srv/app/site'') (path_segments ''/srv/app/artifacts/demo'')"
  by (simp_all add: path_resolve_def path_join_def path_normalize_def normalizeString_def
                    path_segments_def)

lemma checkDocker_eq: "checkDocker w = w_dockerPing w"
  by (simp add: checkDocker_def)

lemma runChecks_Inr:
  assumes "runChecks w = Inr chk"
  shows "configExists chk = w_configFile w" and "dockerRunning chk = w_dockerPing w"
    and "deploymentRunning chk = checkDeployment w" and "envValid chk = checkEnv w"
proof -
  from assms obtain a where "chk = \<lparr>configExists = checkConfig w, dockerRunning = checkDocker w,
               artifactsExist = a, deploymentRunning = checkDeployment w,
               envValid = checkEnv w, databaseExists = checkDatabase w\<rparr>"
    by (auto simp: runChecks_def split: sum.splits)
  then show "configExists chk = w_configFile w" and "dockerRunning chk = w_dockerPing w"
    and "deploymentRunning chk = checkDeployment w" and "envValid chk = checkEnv w"
    by (simp_all add: checkConfig_def checkDocker_eq)
qed

lemma detect_Inr_checks: "detect w = Inr s \<Longrightarrow> runChecks w = Inr (st_checks s)"
  by (auto simp: detect_def classify_def Let_def split: sum.splits if_splits)

lemma classify_type:
  "classify w chk = Inr b \<Longrightarrow>
     st_checks b = chk \<and> st_errors b = None \<and> st_fixes b = None \<and>
     st_type b = (if \<not> configExists chk then ''first-launch''
                  else if \<not> deploymentRunning chk then ''configured-not-deployed''
                  else ''running'')"
  by (auto simp: classify_def split: sum.splits if_splits)

lemma error_overlay_fields:
  assumes "detect w = Inr s" and "detectErrors w (st_checks s) \<noteq> []"
    and "classify w (st_checks s) = Inr b"
  shows "st_type s = ''error''"
    and "st_errors s = Some (detectErrors w (st_checks s))"
    and "st_fixes s = Some (suggestFixes (detectErrors w (st_checks s)))"
    and "st_checks s = st_checks b" and "st_message s = st_message b"
    and "st_suggestions s = st_suggestions b" and "st_config s = st_config b"
    and "st_deployment s = st_deployment b"
proof -
  from assms(1) have rc: "runChecks w = Inr (st_checks s)"
    by (rule detect_Inr_checks)
  define errs where "errs = detectErrors w (st_checks s)"
  from assms rc have s: "s = b\<lparr>st_type := ''error'', st_errors := Some errs,
                                 st_fixes := Some (suggestFixes errs)\<rparr>"
    by (simp add: detect_def Let_def errs_def)
  have "st_type s = ''error''" "st_errors s = Some errs" "st_fixes s = Some (suggestFixes errs)"
    "st_checks s = st_checks b" "st_message s = st_message b"
    "st_suggestions s = st_suggestions b" "st_config s = st_config b"
    "st_deployment s = st_deployment b"
    by (subst s, simp)+
  then show "st_type s = ''error''"
    and "st_errors s = Some (detectErrors w (st_checks s))"
    and "st_fixes s = Some (suggestFixes (detectErrors w (st_checks s)))"
    and "st_checks s = st_checks b" and "st_message s = st_message b"
    and "st_suggestions s = st_suggestions b" and "st_config s = st_config b"
    and "st_deployment s = st_deployment b"
    by (simp_all add: errs_def)
qed

lemma detect_no_errors:
  assumes "detect w = Inr s" and "detectErrors w (st_checks s) = []"
  shows "classify w (st_checks s) = Inr s"
proof -
  from assms(1) have rc: "runChecks w = Inr (st_checks s)"
    by (rule detect_Inr_checks)
  with assms show ?thesis
    by (auto simp: detect_def split: sum.splits)
qed

text \<open>
  C1. Whenever a detection pass returns a state and \<^verbatim>\<open>detectErrors\<close> found at least one
  pathology, the returned state has type \<^verbatim>\<open>error\<close>, carries the errors and their fixes,
  and is otherwise the state \<open>b\<close> written by the classification step: its checks, message,
  suggestions, config and deployment members are those of \<open>b\<close>. The type of \<open>b\<close> is one
  of the three base types, and \<open>underlying\<close> reads it back from the returned state.
\<close>

theorem detect_error_keeps_base:
  assumes "detect w = Inr s" and "detectErrors w (st_checks s) \<noteq> []"
  shows "st_type s = ''error'' \<and>
         st_errors s = Some (detectErrors w (st_checks s)) \<and>
         st_fixes s = Some (suggestFixes (detectErrors w (st_checks s))) \<and>
         underlying s \<in> {''first-launch'', ''configured-not-deployed'', ''running''} \<and>
         (\<exists>b. classify w (st_checks s) = Inr b \<and> st_type b = underlying s \<and>
              st_checks s = st_checks b \<and> st_message s = st_message b \<and>
              st_suggestions s = st_suggestions b \<and> st_config s = st_config b \<and>
              st_deployment s = st_deployment b)"
proof -
  from assms(1) have rc: "runChecks w = Inr (st_checks s)"
    by (rule detect_Inr_checks)
  from assms(1) rc obtain b where b: "classify w (st_checks s) = Inr b"
    by (auto simp: detect_def split: sum.splits)
  have t: "st_type b = underlying s"
    using classify_type[OF b] by (simp add: underlying_def)
  have u: "underlying s \<in> {''first-launch'', ''configured-not-deployed'', ''running''}"
    by (simp add: underlying_def)
  note f = error_overlay_fields[OF assms b]
  show ?thesis
    using b t u f by blast
qed

lemmas detector_defs = detect_def runChecks_def classify_def checkArtifacts_def checkConfig_def
  checkDocker_def checkDeployment_def checkEnv_def checkDatabase_def loadConfig_def
  detectErrors_def suggestFixes_def fixFor_def getFirstLaunchSuggestions_def getDeploymentInfo_def
  demo_paths

theorem detect_error_keeps_base_witness:
  "detect world_missing_env = Inr (projr (detect world_missing_env)) \<and>
   map e_message (detectErrors world_missing_env (st_checks (projr (detect world_missing_env)))) =
     [''Missing environment variables: GOOGLE_CLIENT_ID, GOOGLE_CLIENT_SECRET''] \<and>
   st_type (projr (detect world_missing_env)) = ''error'' \<and>
   underlying (projr (detect world_missing_env)) = ''configured-not-deployed'' \<and>
   st_message (projr (detect world_missing_env)) = ''Configuration found but not deployed'' \<and>
   st_config (projr (detect world_missing_env)) = Some (Some cfg_demo)"
proof -
  obtain s where s: "detect world_missing_env = Inr s"
    by (simp add: detector_defs world_missing_env_def cfg_demo_def env_falsy_def
                  checkEnv_required_def)
  have c: "st_checks s =
      \<lparr>configExists = True, dockerRunning = True,
       artifactsExist = \<lparr>art_exists = False, art_count = 0, art_artifacts = None\<rparr>,
       deploymentRunning = False,
       envValid = \<lparr>env_exists = True, env_valid = False,
                   env_missing = [''GOOGLE_CLIENT_ID'', ''GOOGLE_CLIENT_SECRET'']\<rparr>,
       databaseExists = True\<rparr>"
    using detect_Inr_checks[OF s]
    by (simp add: detector_defs world_missing_env_def cfg_demo_def env_falsy_def
                  checkEnv_required_def)
  have e: "map e_message (detectErrors world_missing_env (st_checks s)) =
             [''Missing environment variables: GOOGLE_CLIENT_ID, GOOGLE_CLIENT_SECRET'']"
    unfolding c
    by (simp add: detectErrors_def loadConfig_def world_missing_env_def cfg_demo_def
                  demo_paths)
  then have ne: "detectErrors world_missing_env (st_checks s) \<noteq> []" by auto
  have u: "underlying s = ''configured-not-deployed''"
    by (simp add: underlying_def c)
  have k: "classify world_missing_env (st_checks s) =
             Inr \<lparr>st_type = ''configured-not-deployed'', st_checks = st_checks s,
                  st_message = ''Configuration found but not deployed'',
                  st_suggestions = None, st_config = Some (Some cfg_demo),
                  st_deployment = None, st_errors = None, st_fixes = None\<rparr>"
    by (simp add: classify_def c loadConfig_def world_missing_env_def)
  from detect_error_keeps_base[OF s ne] k
  have t: "st_type s = ''error''"
    and m: "st_message s = ''Configuration found but not deployed''"
    and g: "st_config s = Some (Some cfg_demo)"
    by auto
  show ?thesis
    unfolding s sum.sel using e t u m g by simp
qed

lemma suggestions_ok:
  "checkArtifacts w = Inr a \<Longrightarrow> \<exists>sg. getFirstLaunchSuggestions w = Inr sg"
  by (auto simp: checkArtifacts_def getFirstLaunchSuggestions_def Let_def
           split: dir_listing.splits sum.splits)

text \<open>
  The artifacts listing is the only probe whose fault leaves \<^verbatim>\<open>detect\<close>: the listing
  made for the first-launch suggestions reads the same directory.
\<close>

lemma detect_rejects_iff: "detect w = Inl e \<longleftrightarrow> checkArtifacts w = Inl e"
proof (cases "checkArtifacts w")
  case (Inl e')
  then show ?thesis by (simp add: detect_def runChecks_def)
next
  case (Inr a)
  then obtain sg where "getFirstLaunchSuggestions w = Inr sg"
    using suggestions_ok by blast
  with Inr show ?thesis
    by (simp add: detect_def runChecks_def classify_def Let_def)
qed





text \<open>
  C7. \<^verbatim>\<open>checkArtifacts\<close> has no \<^verbatim>\<open>try\<close>: when \<^verbatim>\<open>artifacts\<close> is a regular file,
  \<^verbatim>\<open>fs.readdir\<close> rejects with \<^verbatim>\<open>ENOTDIR\<close> and \<^verbatim>\<open>detect\<close> rejects with it, although the
  configuration, the daemon and the environment file are all in order.
\<close>

theorem detect_rejects_on_artifacts_fault:
  "detect world_artifacts_file = Inl (SysError ''ENOTDIR'')"
  by (simp add: detect_def runChecks_def checkArtifacts_def world_artifacts_file_def)

text \<open>
  C8. The list \<^verbatim>\<open>required\<close> of the env probe holds exactly \<^verbatim>\<open>SESSION_SECRET\<close>, the two
  Google variables iff OAuth is enabled, and \<^verbatim>\<open>DATABASE_URL\<close> iff the database is
  \<^verbatim>\<open>postgresql\<close>, each once; and with an \<^verbatim>\<open>.env\<close> file, a loaded configuration and an
  empty process environment, the probe reports exactly that list as missing.
\<close>

theorem checkEnv_required_exact:
  "set (checkEnv_required cfg) =
     {''SESSION_SECRET''}
     \<union> (if cfg_oauth cfg then {''GOOGLE_CLIENT_ID'', ''GOOGLE_CLIENT_SECRET''} else {})
     \<union> (if cfg_database cfg = Some ''postgresql'' then {''DATABASE_URL''} else {})
   \<and> distinct (checkEnv_required cfg)
   \<and> env_missing (checkEnv (w\<lparr>w_envFile := Some t, w_configFile := True,
                              w_configModule := Some cfg, w_processEnv := Map.empty\<rparr>))
       = checkEnv_required cfg"
  by (auto simp: checkEnv_required_def checkEnv_def loadConfig_def env_falsy_def)

theorem checkEnv_required_exact_witness:
  "set (checkEnv_required cfg_demo) =
     {''SESSION_SECRET'', ''GOOGLE_CLIENT_ID'', ''GOOGLE_CLIENT_SECRET'', ''DATABASE_URL''} \<and>
   set (checkEnv_required (cfg_demo\<lparr>cfg_oauth := False, cfg_database := Some ''sqlite''\<rparr>)) =
     {''SESSION_SECRET''} \<and>
   set (checkEnv_required (cfg_demo\<lparr>cfg_oauth := False\<rparr>)) =
     {''SESSION_SECRET'', ''DATABASE_URL''} \<and>
   set (checkEnv_required (cfg_demo\<lparr>cfg_database := Some ''sqlite''\<rparr>)) =
     {''SESSION_SECRET'', ''GOOGLE_CLIENT_ID'', ''GOOGLE_CLIENT_SECRET''}"
  using checkEnv_required_exact[of cfg_demo]
    checkEnv_required_exact[of "cfg_demo\<lparr>cfg_oauth := False, cfg_database := Some ''sqlite''\<rparr>"]
    checkEnv_required_exact[of "cfg_demo\<lparr>cfg_oauth := False\<rparr>"]
    checkEnv_required_exact[of "cfg_demo\<lparr>cfg_database := Some ''sqlite''\<rparr>"]
  by (auto simp: cfg_demo_def)

text \<open>
  C10. Without an \<^verbatim>\<open>.env\<close> file the env probe reports an empty missing list, and a
  returned state has no \<^verbatim>\<open>missing-env-vars\<close> error (a pass that returns no state
  rejected in the artifacts listing). With the file, the missing list is the required
  variables that are unset in the process environment, whatever the file's text is.
\<close>

theorem absent_env_file_no_missing_error:
  "(w_envFile w = None \<longrightarrow>
      checkEnv w = \<lparr>env_exists = False, env_valid = False, env_missing = []\<rparr> \<and>
      (case detect w of
         Inl e \<Rightarrow> checkArtifacts w = Inl e
       | Inr s \<Rightarrow> ''missing-env-vars'' \<notin>
                   set (map e_type (case st_errors s of None \<Rightarrow> [] | Some es \<Rightarrow> es)))) \<and>
   (\<forall>t cfg. w_envFile w = Some t \<and> loadConfig w = Some cfg \<longrightarrow>
      env_missing (checkEnv w) = filter (env_falsy (w_processEnv w)) (checkEnv_required cfg)) \<and>
   (\<forall>t t'. checkEnv (w\<lparr>w_envFile := Some t\<rparr>) = checkEnv (w\<lparr>w_envFile := Some t'\<rparr>))"
proof (intro conjI impI allI)
  assume n: "w_envFile w = None"
  then show ce: "checkEnv w = \<lparr>env_exists = False, env_valid = False, env_missing = []\<rparr>"
    by (simp add: checkEnv_def)
  show "case detect w of
         Inl e \<Rightarrow> checkArtifacts w = Inl e
       | Inr s \<Rightarrow> ''missing-env-vars'' \<notin>
                   set (map e_type (case st_errors s of None \<Rightarrow> [] | Some es \<Rightarrow> es))"
  proof (cases "detect w")
    case (Inl e)
    then have "checkArtifacts w = Inl e" by (simp only: detect_rejects_iff)
    with Inl show ?thesis by simp
  next
    case (Inr s)
    then have rc: "runChecks w = Inr (st_checks s)" by (rule detect_Inr_checks)
    then have ev: "envValid (st_checks s) = checkEnv w"
      by (rule runChecks_Inr)
    have ne: "''missing-env-vars'' \<notin> set (map e_type (detectErrors w (st_checks s)))"
      by (auto simp: detectErrors_def ev ce split: option.splits)
    from Inr rc obtain b where b: "classify w (st_checks s) = Inr b"
      by (auto simp: detect_def split: sum.splits)
    have bn: "st_errors b = None" using classify_type[OF b] by simp
    have "st_errors s = None \<or> st_errors s = Some (detectErrors w (st_checks s))"
    proof (cases "detectErrors w (st_checks s) = []")
      case True
      from detect_no_errors[OF Inr True] b have "s = b" by simp
      with bn show ?thesis by simp
    next
      case False
      from error_overlay_fields(2)[OF Inr False b] show ?thesis by simp
    qed
    then have "''missing-env-vars'' \<notin>
        set (map e_type (case st_errors s of None \<Rightarrow> [] | Some es \<Rightarrow> es))"
      using ne by (elim disjE) simp_all
    with Inr show ?thesis by simp
  qed
next
  fix t cfg
  assume "w_envFile w = Some t \<and> loadConfig w = Some cfg"
  then show "env_missing (checkEnv w) =
             filter (env_falsy (w_processEnv w)) (checkEnv_required cfg)"
    by (simp add: checkEnv_def Let_def)
next
  fix t t'
  show "checkEnv (w\<lparr>w_envFile := Some t\<rparr>) = checkEnv (w\<lparr>w_envFile := Some t'\<rparr>)"
    by (simp add: checkEnv_def loadConfig_def Let_def split: option.splits)
qed

theorem absent_env_file_no_missing_error_witness:
  "w_envFile world_configured = None \<and>
   loadConfig world_configured = Some cfg_demo \<and>
   filter (env_falsy (w_processEnv world_configured)) (checkEnv_required cfg_demo) \<noteq> [] \<and>
   env_missing (checkEnv world_configured) = [] \<and>
   \<not> isl (detect world_configured) \<and>
   ''missing-env-vars'' \<notin> set (map e_type (case st_errors (projr (detect world_configured)) of
                                             None \<Rightarrow> [] | Some es \<Rightarrow> es)) \<and>
   env_missing (checkEnv (world_configured\<lparr>w_envFile := Some ''SESSION_SECRET=abc''\<rparr>)) =
     [''SESSION_SECRET'', ''GOOGLE_CLIENT_ID'', ''GOOGLE_CLIENT_SECRET'', ''DATABASE_URL'']"
proof -
  have n: "w_envFile world_configured = None" by (simp add: world_configured_def)
  have l: "loadConfig world_configured = Some cfg_demo"
    by (simp add: world_configured_def loadConfig_def)
  have r: "filter (env_falsy (w_processEnv world_configured)) (checkEnv_required cfg_demo) =
     [''SESSION_SECRET'', ''GOOGLE_CLIENT_ID'', ''GOOGLE_CLIENT_SECRET'', ''DATABASE_URL'']"
    by (simp add: world_configured_def checkEnv_required_def cfg_demo_def env_falsy_def)
  obtain s where s: "detect world_configured = Inr s"
    by (simp add: detector_defs world_configured_def cfg_demo_def env_falsy_def
                  checkEnv_required_def)
  note inst = conjunct1[OF absent_env_file_no_missing_error[of world_configured]]
  from inst n have a: "env_missing (checkEnv world_configured) = []" by simp
  from inst n s have b: "''missing-env-vars'' \<notin>
      set (map e_type (case st_errors s of None \<Rightarrow> [] | Some es \<Rightarrow> es))" by simp
  have c: "env_missing (checkEnv (world_configured\<lparr>w_envFile := Some ''SESSION_SECRET=abc''\<rparr>)) =
     [''SESSION_SECRET'', ''GOOGLE_CLIENT_ID'', ''GOOGLE_CLIENT_SECRET'', ''DATABASE_URL'']"
    by (simp add: world_configured_def checkEnv_def loadConfig_def checkEnv_required_def
                  cfg_demo_def env_falsy_def)
  show ?thesis using n l r a b c s by simp
qed

section \<open>The deployment orchestrator: properties\<close>

lemmas provider_defs = createProvider_def getProvider_def detectProvider_def newProvider_def
  validate_def fetch_def fs_copy_def prepare_def destDir_def demo_paths Let_def

lemmas run_defs = steps1to5_def validateEnvironment_def docker_checkDocker_def
  validateEnvironment_required_def fetchArtifact_def database_initialize_def

lemmas sample_defs = dworld_ok_def cfg_demo_def env_demo_def env_falsy_def demo_artifact_def


lemma run_late:
  "steps1to5 (m_config m) w = Inr a \<Longrightarrow>
   run m w =
     (case steps7to9 (m_config m) w a of
        Inr r \<Rightarrow> \<lparr>ro_result = Inr r, ro_manager = m\<lparr>m_rollbackState := saveRollbackState w\<rparr>,
                  ro_rollbacks = []\<rparr>
      | Inl e \<Rightarrow> \<lparr>ro_result = Inl e, ro_manager = m\<lparr>m_rollbackState := saveRollbackState w\<rparr>,
                  ro_rollbacks = (case saveRollbackState w of
                                    None \<Rightarrow> []
                                  | Some _ \<Rightarrow> [rollback w])\<rparr>)"
  by (simp add: run_def run_try_def Let_def split: sum.splits)




text \<open>
  C3, as the code has it. When steps 1 to 8 succeed, the auto-commit flag is set and the
  commit of step 9 rejects with \<open>e\<close>, \<^verbatim>\<open>run\<close> throws \<open>e\<close>: the commit is awaited inside
  the same \<^verbatim>\<open>try\<close> as the other steps. \<^verbatim>\<open>rollback()\<close> is called once if step 6 captured
  a rollback state, and not at all otherwise.
\<close>

theorem run_commit_failure:
  assumes "steps1to5 (m_config m) w = Inr a"
    and "d_startContainers w = None"
    and "fst (verifyDeployment (m_config m) w) = Inr v"
    and "cfg_autoCommit (m_config m)"
    and "d_gitCommit w (''deploy: '' @ cfg_name (m_config m) @ '' v'' @ d_version w)
           (cfg_autoDeploy (m_config m)) = Some e"
  shows "ro_result (run m w) = Inl e \<and>
         ro_rollbacks (run m w) =
           (case saveRollbackState w of None \<Rightarrow> [] | Some _ \<Rightarrow> [rollback w])"
proof -
  from assms(2-5) have "steps7to9 (m_config m) w a = Inl e"
    by (simp add: steps7to9_def commit_step_def)
  with assms(1) show ?thesis
    by (simp add: run_late)
qed

lemma commit_fails_facts:
  "steps1to5 cfg_demo dworld_commit_fails = Inr demo_artifact"
  "d_startContainers dworld_commit_fails = None"
  "fst (verifyDeployment cfg_demo dworld_commit_fails) = Inr True"
  "cfg_autoCommit cfg_demo"
  "d_gitCommit dworld_commit_fails (''deploy: '' @ cfg_name cfg_demo @ '' v'' @ d_version dworld_commit_fails)
           (cfg_autoDeploy cfg_demo) = Some (Error ''Commit failed: not a git repository'')"
  "saveRollbackState dworld_commit_fails =
     Some \<lparr>rb_timestamp = 1700000000, rb_containers = [], rb_commitHash = Some ''abc1234''\<rparr>"
  "rollback dworld_commit_fails = RollbackCompleted"
  by (simp_all add: run_defs provider_defs dworld_commit_fails_def sample_defs
        verifyDeployment_def axios_get_def saveRollbackState_def rollback_def)

theorem run_commit_failure_witness:
  "steps1to5 cfg_demo dworld_commit_fails = Inr demo_artifact \<and>
   d_startContainers dworld_commit_fails = None \<and>
   fst (verifyDeployment cfg_demo dworld_commit_fails) = Inr True \<and>
   cfg_autoCommit cfg_demo \<and>
   ro_result (run (DeploymentManager cfg_demo) dworld_commit_fails) =
     Inl (Error ''Commit failed: not a git repository'') \<and>
   ro_rollbacks (run (DeploymentManager cfg_demo) dworld_commit_fails) = [RollbackCompleted]"
proof -
  have c: "m_config (DeploymentManager cfg_demo) = cfg_demo"
    by (simp add: DeploymentManager_def)
  note f = commit_fails_facts
  from run_commit_failure[of "DeploymentManager cfg_demo" dworld_commit_fails demo_artifact True,
      unfolded c, OF f(1) f(2) f(3) f(4) f(5)]
  show ?thesis using f by simp
qed

text \<open>
  The claim C3 as stated fails: steps 1 to 8 succeed, the flag is set, the commit
  rejects, and the run ends in an error after a rollback.
\<close>

theorem commit_failure_fails_deployment:
  "steps1to5 cfg_demo dworld_commit_fails = Inr demo_artifact \<and>
   d_startContainers dworld_commit_fails = None \<and>
   fst (verifyDeployment cfg_demo dworld_commit_fails) = Inr True \<and>
   cfg_autoCommit cfg_demo \<and>
   isl (ro_result (run (DeploymentManager cfg_demo) dworld_commit_fails)) \<and>
   ro_rollbacks (run (DeploymentManager cfg_demo) dworld_commit_fails) \<noteq> []"
proof -
  have c: "m_config (DeploymentManager cfg_demo) = cfg_demo"
    by (simp add: DeploymentManager_def)
  have s: "steps7to9 cfg_demo dworld_commit_fails demo_artifact =
             Inl (Error ''Commit failed: not a git repository'')"
    using commit_fails_facts(2-5) by (simp add: steps7to9_def commit_step_def)
  have "run (DeploymentManager cfg_demo) dworld_commit_fails =
          \<lparr>ro_result = Inl (Error ''Commit failed: not a git repository''),
           ro_manager = (DeploymentManager cfg_demo)\<lparr>m_rollbackState := saveRollbackState dworld_commit_fails\<rparr>,
           ro_rollbacks = [RollbackCompleted]\<rparr>"
    using run_late[of "DeploymentManager cfg_demo" dworld_commit_fails demo_artifact]
    by (simp add: c s commit_fails_facts)
  then show ?thesis using commit_fails_facts by simp
qed

text \<open>
  C5, as the code has it. With a server configured: a 404 answer to the first request is
  success; a refused first request followed by a retry answered with a 2xx status is
  success, after two requests; two refused requests are fatal; any answer to the first
  request with a status below 500 is success; an answer to the first request with a
  status of 500 or more is fatal, and no second request is made.
\<close>

theorem verifyDeployment_policy:
  assumes "cfg_server cfg = Some srv"
  shows "(d_health w = Answer 404 \<longrightarrow>
            fst (verifyDeployment cfg w) = Inr True \<and> length (snd (verifyDeployment cfg w)) = 1) \<and>
         (\<forall>s. d_health w = NetFail ''ECONNREFUSED'' \<and> d_retry w = Answer s \<and> 200 \<le> s \<and> s < 300 \<longrightarrow>
            fst (verifyDeployment cfg w) = Inr True \<and> length (snd (verifyDeployment cfg w)) = 2) \<and>
         (d_health w = NetFail ''ECONNREFUSED'' \<and> d_retry w = NetFail ''ECONNREFUSED'' \<longrightarrow>
            fst (verifyDeployment cfg w) =
              Inl (Error ''Containers started but application is not responding'') \<and>
            length (snd (verifyDeployment cfg w)) = 2) \<and>
         (\<forall>s. d_health w = Answer s \<and> s < 500 \<longrightarrow>
            fst (verifyDeployment cfg w) = Inr True \<and> length (snd (verifyDeployment cfg w)) = 1) \<and>
         (\<forall>s. d_health w = Answer s \<and> 500 \<le> s \<longrightarrow>
            fst (verifyDeployment cfg w) = Inl (Error (''Server returned status '' @ show_nat s)) \<and>
            length (snd (verifyDeployment cfg w)) = 1)"
  using assms
  by (auto simp: verifyDeployment_def axios_get_def default_validateStatus_def Let_def
                 thrown_response_status_def thrown_code_def rethrow_def)

theorem verifyDeployment_policy_witness:
  "cfg_server cfg_demo = Some \<lparr>srv_host = ''localhost'', srv_port = 3000\<rparr> \<and>
   fst (verifyDeployment cfg_demo (dworld_ok\<lparr>d_health := Answer 404\<rparr>)) = Inr True \<and>
   fst (verifyDeployment cfg_demo
          (dworld_ok\<lparr>d_health := NetFail ''ECONNREFUSED'', d_retry := Answer 204\<rparr>)) = Inr True \<and>
   verifyDeployment cfg_demo
     (dworld_ok\<lparr>d_health := NetFail ''ECONNREFUSED'', d_retry := NetFail ''ECONNREFUSED''\<rparr>) =
     (Inl (Error ''Containers started but application is not responding''),
      [''http://localhost:3000/health'', ''http://localhost:3000'']) \<and>
   fst (verifyDeployment cfg_demo (dworld_ok\<lparr>d_health := Answer 302\<rparr>)) = Inr True \<and>
   verifyDeployment cfg_demo (dworld_ok\<lparr>d_health := Answer 503\<rparr>) =
     (Inl (Error ''Server returned status 503''), [''http://localhost:3000/health''])"
proof -
  have c: "cfg_server cfg_demo = Some \<lparr>srv_host = ''localhost'', srv_port = 3000\<rparr>"
    by (simp add: cfg_demo_def)
  note p = verifyDeployment_policy[OF c]
  have 1: "fst (verifyDeployment cfg_demo (dworld_ok\<lparr>d_health := Answer 404\<rparr>)) = Inr True"
    using p[of "dworld_ok\<lparr>d_health := Answer 404\<rparr>"] by simp
  have 2: "fst (verifyDeployment cfg_demo
          (dworld_ok\<lparr>d_health := NetFail ''ECONNREFUSED'', d_retry := Answer 204\<rparr>)) = Inr True"
    using p[of "dworld_ok\<lparr>d_health := NetFail ''ECONNREFUSED'', d_retry := Answer 204\<rparr>"] by simp
  have 3: "fst (verifyDeployment cfg_demo
     (dworld_ok\<lparr>d_health := NetFail ''ECONNREFUSED'', d_retry := NetFail ''ECONNREFUSED''\<rparr>)) =
     Inl (Error ''Containers started but application is not responding'')"
    using p[of "dworld_ok\<lparr>d_health := NetFail ''ECONNREFUSED'', d_retry := NetFail ''ECONNREFUSED''\<rparr>"]
    by simp
  have s3: "snd (verifyDeployment cfg_demo
     (dworld_ok\<lparr>d_health := NetFail ''ECONNREFUSED'', d_retry := NetFail ''ECONNREFUSED''\<rparr>)) =
     [''http://localhost:3000/health'', ''http://localhost:3000'']"
    by (simp add: verifyDeployment_def axios_get_def default_validateStatus_def c health_url_def
          thrown_response_status_def thrown_code_def show_nat.simps digit_def)
  have 4: "fst (verifyDeployment cfg_demo (dworld_ok\<lparr>d_health := Answer 302\<rparr>)) = Inr True"
    using p[of "dworld_ok\<lparr>d_health := Answer 302\<rparr>"] by simp
  have 5: "fst (verifyDeployment cfg_demo (dworld_ok\<lparr>d_health := Answer 503\<rparr>)) =
             Inl (Error ''Server returned status 503'')"
    using p[of "dworld_ok\<lparr>d_health := Answer 503\<rparr>"] by (simp add: show_nat.simps digit_def)
  have s5: "snd (verifyDeployment cfg_demo (dworld_ok\<lparr>d_health := Answer 503\<rparr>)) =
             [''http://localhost:3000/health'']"
    by (simp add: verifyDeployment_def axios_get_def c health_url_def
          thrown_response_status_def thrown_code_def show_nat.simps digit_def)
  show ?thesis
    using c 1 2 3 s3 4 5 s5 by (simp add: prod_eq_iff)
qed

text \<open>
  The claim C5 as stated fails for an answer to the retry: the retry is sent without
  \<^verbatim>\<open>validateStatus\<close>, so a 404 answer to it, a status below 500, rejects and the
  verification is fatal.
\<close>

theorem verify_retry_404_is_fatal:
  "d_health dworld_refused_404 = NetFail ''ECONNREFUSED'' \<and>
   d_retry dworld_refused_404 = Answer 404 \<and> (404::nat) < 500 \<and>
   fst (verifyDeployment cfg_demo dworld_refused_404) =
     Inl (Error ''Containers started but application is not responding'')"
  by (simp add: verifyDeployment_def axios_get_def default_validateStatus_def Let_def
        thrown_response_status_def thrown_code_def dworld_refused_404_def dworld_ok_def cfg_demo_def)






text \<open>
  A Local source that resolves to the destination directory stops the run in step 2:
  \<^verbatim>\<open>fs.copy\<close> refuses to copy a directory onto itself.
\<close>

lemma local_source_is_destination:
  "fetchArtifact (cfg_demo\<lparr>cfg_source := Some ''./artifacts/demo''\<rparr>)
     (dworld_ok\<lparr>d_pathExists := (\<lambda>p. p = ''/srv/app/artifacts/demo'')\<rparr>) =
   Inl (Error ''Source and destination must not be the same.'')"
proof -
  have "path_resolve ''/srv/app'' [''./artifacts/demo''] = ''/srv/app/artifacts/demo''"
    by (simp add: path_resolve_def normalizeString_def)
  then show ?thesis
    by (simp add: fetchArtifact_def provider_defs sample_defs)
qed

lemma newProvider_path:
  "newProvider k cfg w = Inr p \<Longrightarrow> p_kind p = k \<and> (k \<noteq> LocalProvider \<longrightarrow> p_path p = None)"
  by (auto simp: newProvider_def split: provider_kind.splits option.splits)

lemma createProvider_path:
  assumes "createProvider cfg w = Inr p" and "p_kind p = URLProvider"
  shows "p_path p = None"
proof -
  from assms(1) obtain k c where "newProvider k c w = Inr p"
    by (auto simp: createProvider_def getProvider_def detectProvider_def Let_def
             split: option.splits if_splits)
  from newProvider_path[OF this] assms(2) show ?thesis by auto
qed

text \<open>
  C9. Whenever the provider created for a configuration is the URL provider, its
  \<^verbatim>\<open>validate\<close> throws because \<^verbatim>\<open>downloadedPath\<close> is still \<^verbatim>\<open>null\<close>, \<^verbatim>\<open>fetchArtifact\<close>
  throws that error before \<^verbatim>\<open>fetch\<close> is reached, steps 1 to 5 fail and so does every
  run. The URL provider is the one created for \<^verbatim>\<open>provider: 'url'\<close>, and in auto mode for
  an http(s) source that names neither of the two Claude hosts. Only \<^verbatim>\<open>fetch\<close> writes
  \<^verbatim>\<open>downloadedPath\<close>.
\<close>

theorem url_provider_fetch_fails:
  "(\<forall>p. createProvider cfg w = Inr p \<and> p_kind p = URLProvider \<longrightarrow>
        validate p w = Inl (Error ''Artifact not downloaded yet. Call fetch() first.'') \<and>
        fetchArtifact cfg w = Inl (Error ''Artifact not downloaded yet. Call fetch() first.'') \<and>
        isl (steps1to5 cfg w) \<and>
        (\<forall>m. m_config m = cfg \<longrightarrow> isl (ro_result (run m w)))) \<and>
   (cfg_provider cfg = Some ''url'' \<longrightarrow>
      (\<exists>p. createProvider cfg w = Inr p \<and> p_kind p = URLProvider)) \<and>
   (\<forall>src. cfg_provider cfg \<in> {None, Some [], Some ''auto''} \<and> cfg_source cfg = Some src \<and>
          is_http_url src \<and>
          \<not> (str_includes src ''claude.ai'' \<or> str_includes src ''anthropic.com'') \<longrightarrow>
      (\<exists>p. createProvider cfg w = Inr p \<and> p_kind p = URLProvider)) \<and>
   (\<forall>p a p'. p_kind p = URLProvider \<and> fetch p w = Inr (a, p') \<longrightarrow>
      p_path p' = Some (destDir p w))"
proof (intro conjI allI impI)
  fix p
  assume a: "createProvider cfg w = Inr p \<and> p_kind p = URLProvider"
  then have n: "p_path p = None" using createProvider_path by blast
  with a show v: "validate p w = Inl (Error ''Artifact not downloaded yet. Call fetch() first.'')"
    by (simp add: validate_def)
  with a show f: "fetchArtifact cfg w = Inl (Error ''Artifact not downloaded yet. Call fetch() first.'')"
    by (simp add: fetchArtifact_def)
  then show s: "isl (steps1to5 cfg w)"
    by (simp add: steps1to5_def split: sum.splits)
  fix m :: manager
  assume "m_config m = cfg"
  with s show "isl (ro_result (run m w))"
    by (auto simp: run_def run_try_def isl_def split: sum.splits prod.splits)
next
  assume "cfg_provider cfg = Some ''url''"
  then show "\<exists>p. createProvider cfg w = Inr p \<and> p_kind p = URLProvider"
    by (simp add: createProvider_def getProvider_def newProvider_def)
next
  fix src
  assume "cfg_provider cfg \<in> {None, Some [], Some ''auto''} \<and> cfg_source cfg = Some src \<and>
          is_http_url src \<and>
          \<not> (str_includes src ''claude.ai'' \<or> str_includes src ''anthropic.com'')"
  then show "\<exists>p. createProvider cfg w = Inr p \<and> p_kind p = URLProvider"
    by (auto simp: createProvider_def detectProvider_def newProvider_def)
next
  fix p a p'
  assume "p_kind p = URLProvider \<and> fetch p w = Inr (a, p')"
  then show "p_path p' = Some (destDir p w)"
    by (auto simp: fetch_def Let_def split: sum.splits option.splits)
qed

theorem url_provider_fetch_fails_witness:
  "cfg_provider cfg_url = Some ''url'' \<and>
   validateEnvironment cfg_url dworld_ok = Inr () \<and>
   fetchArtifact cfg_url dworld_ok = Inl (Error ''Artifact not downloaded yet. Call fetch() first.'') \<and>
   isl (ro_result (run (DeploymentManager cfg_url) dworld_ok)) \<and>
   cfg_provider cfg_auto_url = None \<and>
   fetchArtifact cfg_auto_url dworld_ok =
     Inl (Error ''Artifact not downloaded yet. Call fetch() first.'')"
proof -
  have u: "cfg_provider cfg_url = Some ''url''" by (simp add: cfg_url_def cfg_demo_def)
  have v: "validateEnvironment cfg_url dworld_ok = Inr ()"
    by (simp add: validateEnvironment_def docker_checkDocker_def validateEnvironment_required_def
          cfg_url_def sample_defs)
  note t = url_provider_fetch_fails[of cfg_url dworld_ok]
  from t u obtain p where p: "createProvider cfg_url dworld_ok = Inr p \<and> p_kind p = URLProvider"
    by blast
  from t p have f: "fetchArtifact cfg_url dworld_ok =
      Inl (Error ''Artifact not downloaded yet. Call fetch() first.'')" by blast
  have "m_config (DeploymentManager cfg_url) = cfg_url" by (simp add: DeploymentManager_def)
  with t p have r: "isl (ro_result (run (DeploymentManager cfg_url) dworld_ok))" by blast
  have a: "cfg_provider cfg_auto_url = None" "cfg_source cfg_auto_url = Some ''https://github.com/acme/site''"
    by (simp_all add: cfg_auto_url_def cfg_demo_def)
  have h: "is_http_url ''https://github.com/acme/site''" by (simp add: is_http_url_def)
  have i: "\<not> (str_includes ''https://github.com/acme/site'' ''claude.ai'' \<or>
              str_includes ''https://github.com/acme/site'' ''anthropic.com'')"
    by (simp add: str_includes_def sublist_code)
  note t' = url_provider_fetch_fails[of cfg_auto_url dworld_ok]
  from a(1) have a': "cfg_provider cfg_auto_url \<in> {None, Some [], Some ''auto''}" by simp
  from t' a' a(2) h i obtain q where q: "createProvider cfg_auto_url dworld_ok = Inr q \<and> p_kind q = URLProvider"
    by blast
  from t' q have g: "fetchArtifact cfg_auto_url dworld_ok =
      Inl (Error ''Artifact not downloaded yet. Call fetch() first.'')" by blast
  show ?thesis using u v f r a(1) g by simp
qed

end
